theory Spec2Isabelle
  imports Main
begin

section \<open>The CLOB proxy: a shallow embedding of the two server files\<close>

text \<open>
  The repository holds two versions of the same Fastify server: \<^verbatim>\<open>src/server.js\<close>
  (streams the upstream body, drops \<^verbatim>\<open>content-length\<close>, sets a default content type)
  and a second variant of the server, called the buffered server below (it awaits
  \<^verbatim>\<open>response.text()\<close>). Both register \<^verbatim>\<open>app.get("/health")\<close> and a catch-all
  \<^verbatim>\<open>app.all("/*")\<close> handler. Definitions of the buffered server carry the suffix
  \<open>_buf\<close>.

  What the code takes from its platform is a parameter of the model: the global
  \<^verbatim>\<open>fetch\<close>, \<^verbatim>\<open>new URL(...).host\<close>, \<^verbatim>\<open>JSON.stringify\<close> and one option of the
  router. Strings are byte strings (UTF-8); header names are ASCII, so
  \<^verbatim>\<open>toLowerCase\<close> is ASCII lowering.
\<close>

subsection \<open>JavaScript values and objects\<close>

datatype js_value =
    JUndefined
  | JNull
  | JBool bool
  | JNum int
  | JStr string
  | JArr "js_value list"
  | JObj "(string \<times> js_value) list"

text \<open>
  Numbers are the integers here: the values met below are \<open>0\<close> and \<open>1\<close>.
\<close>

text \<open>Truthiness, as \<^verbatim>\<open>if (v)\<close>, \<^verbatim>\<open>a && b\<close> and \<^verbatim>\<open>a || b\<close> test it.\<close>

fun truthy :: "js_value \<Rightarrow> bool" where
  "truthy JUndefined = False"
| "truthy JNull = False"
| "truthy (JBool b) = b"
| "truthy (JNum n) = (n \<noteq> 0)"
| "truthy (JStr s) = (s \<noteq> [])"
| "truthy (JArr vs) = True"
| "truthy (JObj kvs) = True"

text \<open>
  A plain object is its list of entries in insertion order. \<open>obj_get\<close> is \<^verbatim>\<open>o[k]\<close>
  (\<^verbatim>\<open>undefined\<close> for a missing key); \<open>obj_set\<close> is \<^verbatim>\<open>o[k] = v\<close>: an existing key keeps
  its place, a new key goes last.
\<close>

type_synonym js_object = "(string \<times> js_value) list"

definition obj_get :: "js_object \<Rightarrow> string \<Rightarrow> js_value" where
  "obj_get obj k = (case map_of obj k of None \<Rightarrow> JUndefined | Some v \<Rightarrow> v)"

primrec obj_set :: "js_object \<Rightarrow> string \<Rightarrow> js_value \<Rightarrow> js_object" where
  "obj_set [] k v = [(k, v)]"
| "obj_set (p # ps) k v = (if fst p = k then (k, v) # ps else p # obj_set ps k v)"

definition toLowerCase_char :: "char \<Rightarrow> char" where
  "toLowerCase_char c =
     (let n = (of_char c :: nat) in if 65 \<le> n \<and> n \<le> 90 then char_of (n + 32) else c)"

definition toLowerCase :: "string \<Rightarrow> string" where
  "toLowerCase s = map toLowerCase_char s"

text \<open>
  An error object with its name and message; \<open>String_err\<close> is \<^verbatim>\<open>String(err)\<close>, that is
  \<^verbatim>\<open>Error.prototype.toString\<close>.
\<close>

datatype js_error = JsError string string

fun String_err :: "js_error \<Rightarrow> string" where
  "String_err (JsError name msg) =
     (if name = [] then msg else if msg = [] then name else name @ '': '' @ msg)"

text \<open>An awaited promise resolves, rejects, or stays pending for ever.\<close>

datatype 'a promise = Resolved 'a | Rejected js_error | NeverSettles

subsection \<open>Requests, responses, configuration\<close>

record config =
  CLOB_TARGET :: string
  API_KEY :: string

record request =
  req_method :: string
  req_url :: string
  req_headers :: js_object
  req_body :: js_value

text \<open>The second argument of \<^verbatim>\<open>fetch\<close>, with exactly the options the code passes.\<close>

record fetch_init =
  init_method :: string
  init_headers :: js_object
  init_body :: "string option"
  init_redirect :: string

text \<open>
  The upstream body is a stream of chunks that ends, fails with an error, or stalls.
  \<^verbatim>\<open>response.body\<close> is \<^verbatim>\<open>null\<close> when the upstream sent no body.
\<close>

datatype stream_end = Ends | Fails js_error | Stalls

datatype body_stream = BodyStream "string list" stream_end

record upstream_response =
  res_status :: nat
  res_headers :: "(string \<times> string) list"
  res_body :: "body_stream option"

text \<open>\<^verbatim>\<open>response.text()\<close> reads the body to its end.\<close>

fun response_text :: "upstream_response \<Rightarrow> string promise" where
  "response_text response =
     (case res_body response of
        None \<Rightarrow> Resolved []
      | Some (BodyStream chunks Ends) \<Rightarrow> Resolved (concat chunks)
      | Some (BodyStream chunks (Fails err)) \<Rightarrow> Rejected err
      | Some (BodyStream chunks Stalls) \<Rightarrow> NeverSettles)"

text \<open>
  The platform: the global \<^verbatim>\<open>fetch\<close>, \<^verbatim>\<open>new URL(...).host\<close> (\<open>None\<close> when the
  constructor throws), \<^verbatim>\<open>JSON.stringify\<close> (\<open>None\<close> for \<^verbatim>\<open>undefined\<close>), and the
  router's option \<^verbatim>\<open>useSemicolonDelimiter\<close>, which the code leaves at the framework's
  default.
\<close>

record platform =
  fetch :: "string \<Rightarrow> fetch_init \<Rightarrow> upstream_response promise"
  url_host :: "string \<Rightarrow> string option"
  JSON_stringify :: "js_value \<Rightarrow> string option"
  useSemicolonDelimiter :: bool

text \<open>
  What \<^verbatim>\<open>reply.send\<close> is given: a value (an object is sent as JSON, a string as it is)
  or a readable stream.
\<close>

datatype reply_payload = SendValue js_value | SendStream body_stream

record reply =
  reply_status :: nat
  reply_headers :: js_object
  reply_payload :: reply_payload

text \<open>
  A handler replies, throws out of the handler (\<^verbatim>\<open>new URL\<close> is outside the \<^verbatim>\<open>try\<close>),
  or never replies because an awaited promise never settles. The second component of a
  handler's result is the list of \<^verbatim>\<open>fetch\<close> calls it made.
\<close>

datatype outcome = Replied reply | Threw | NoReply

type_synonym fetch_call = "string \<times> fetch_init"

subsection \<open>Health check\<close>

definition health :: "config \<Rightarrow> reply" where
  "health cfg =
     \<lparr> reply_status = 200, reply_headers = [],
       reply_payload = SendValue (JObj [(''status'', JStr ''ok''), (''region'', JStr ''eu''),
                                        (''target'', JStr (CLOB_TARGET cfg))]) \<rparr>"

subsection \<open>The catch-all handler of \<^verbatim>\<open>src/server.js\<close>\<close>

text \<open>The condition of the API key check.\<close>

definition unauthorized :: "config \<Rightarrow> request \<Rightarrow> bool" where
  "unauthorized cfg req \<longleftrightarrow>
     API_KEY cfg \<noteq> [] \<and> req_method req \<noteq> ''GET'' \<and> req_method req \<noteq> ''HEAD'' \<and>
     obj_get (req_headers req) ''x-proxy-key'' \<noteq> JStr (API_KEY cfg)"

definition unauthorized_message :: string where
  "unauthorized_message =
     ''Unauthorized '' @ [CHR 0xE2, CHR 0x80, CHR 0x94] @ '' invalid X-Proxy-Key''"

definition unauthorized_reply :: reply where
  "unauthorized_reply =
     \<lparr> reply_status = 401, reply_headers = [],
       reply_payload = SendValue (JObj [(''error'', JStr unauthorized_message)]) \<rparr>"

definition targetUrl :: "config \<Rightarrow> request \<Rightarrow> string" where
  "targetUrl cfg req = CLOB_TARGET cfg @ req_url req"

definition skipped_request_header :: "string \<Rightarrow> bool" where
  "skipped_request_header key \<longleftrightarrow>
     (let lower = toLowerCase key in
        lower = ''host'' \<or> lower = ''x-proxy-key'' \<or> lower = ''connection'' \<or>
        lower = ''keep-alive'' \<or> lower = ''transfer-encoding'' \<or> lower = ''content-length'')"

text \<open>The loop over \<^verbatim>\<open>Object.entries(req.headers)\<close>, with \<open>acc\<close> the object built so far.\<close>

fun copy_headers :: "js_object \<Rightarrow> js_object \<Rightarrow> js_object" where
  "copy_headers [] acc = acc"
| "copy_headers ((key, value) # rest) acc =
     (if skipped_request_header key then copy_headers rest acc
      else copy_headers rest (obj_set acc key value))"

definition host_headers :: "string \<Rightarrow> request \<Rightarrow> js_object" where
  "host_headers h req = obj_set (copy_headers (req_headers req) []) ''host'' (JStr h)"

definition has_request_body :: "request \<Rightarrow> bool" where
  "has_request_body req \<longleftrightarrow>
     req_method req \<noteq> ''GET'' \<and> req_method req \<noteq> ''HEAD'' \<and> truthy (req_body req)"

definition requestBody :: "platform \<Rightarrow> request \<Rightarrow> string option" where
  "requestBody pf req =
     (if has_request_body req
      then (case req_body req of JStr s \<Rightarrow> Some s | v \<Rightarrow> JSON_stringify pf v)
      else None)"

definition forwardHeaders :: "string \<Rightarrow> request \<Rightarrow> js_object" where
  "forwardHeaders h req =
     (let fh = host_headers h req in
        if has_request_body req
        then obj_set fh ''content-type''
               (if truthy (obj_get fh ''content-type'') then obj_get fh ''content-type''
                else JStr ''application/json'')
        else fh)"

definition skipped_response_header :: "string \<Rightarrow> bool" where
  "skipped_response_header key \<longleftrightarrow>
     (let lower = toLowerCase key in
        lower = ''transfer-encoding'' \<or> lower = ''connection'' \<or> lower = ''content-encoding'')"

text \<open>The callback of \<^verbatim>\<open>response.headers.forEach\<close>, run over the entries in order.\<close>

fun responseHeaders :: "(string \<times> string) list \<Rightarrow> js_object \<Rightarrow> js_object" where
  "responseHeaders [] acc = acc"
| "responseHeaders ((key, value) # rest) acc =
     (if skipped_response_header key then responseHeaders rest acc
      else responseHeaders rest (obj_set acc key (JStr value)))"

definition proxy_error_reply :: "js_error \<Rightarrow> reply" where
  "proxy_error_reply err =
     \<lparr> reply_status = 502, reply_headers = [],
       reply_payload = SendValue (JObj [(''error'', JStr ''Proxy error''),
                                        (''detail'', JStr (String_err err))]) \<rparr>"

definition fetch_init_of :: "platform \<Rightarrow> string \<Rightarrow> request \<Rightarrow> fetch_init" where
  "fetch_init_of pf h req =
     \<lparr> init_method = req_method req, init_headers = forwardHeaders h req,
       init_body = requestBody pf req, init_redirect = ''follow'' \<rparr>"

definition relay :: "upstream_response \<Rightarrow> reply" where
  "relay response =
     \<lparr> reply_status = res_status response,
       reply_headers = responseHeaders (res_headers response) [],
       reply_payload = (case res_body response of
                          Some nodeStream \<Rightarrow> SendStream nodeStream
                        | None \<Rightarrow> SendValue (JStr [])) \<rparr>"

definition handler :: "platform \<Rightarrow> config \<Rightarrow> request \<Rightarrow> outcome \<times> fetch_call list" where
  "handler pf cfg req =
     (if unauthorized cfg req then (Replied unauthorized_reply, [])
      else case url_host pf (CLOB_TARGET cfg) of
        None \<Rightarrow> (Threw, [])
      | Some h \<Rightarrow>
          (let call = (targetUrl cfg req, fetch_init_of pf h req) in
             case fetch pf (fst call) (snd call) of
               Rejected err \<Rightarrow> (Replied (proxy_error_reply err), [call])
             | NeverSettles \<Rightarrow> (NoReply, [call])
             | Resolved response \<Rightarrow> (Replied (relay response), [call])))"

subsection \<open>The catch-all handler of the buffered server\<close>

definition skipped_request_header_buf :: "string \<Rightarrow> bool" where
  "skipped_request_header_buf key \<longleftrightarrow>
     (let lower = toLowerCase key in
        lower = ''host'' \<or> lower = ''x-proxy-key'' \<or> lower = ''connection'' \<or>
        lower = ''keep-alive'' \<or> lower = ''transfer-encoding'')"

fun copy_headers_buf :: "js_object \<Rightarrow> js_object \<Rightarrow> js_object" where
  "copy_headers_buf [] acc = acc"
| "copy_headers_buf ((key, value) # rest) acc =
     (if skipped_request_header_buf key then copy_headers_buf rest acc
      else copy_headers_buf rest (obj_set acc key value))"

definition forwardHeaders_buf :: "string \<Rightarrow> request \<Rightarrow> js_object" where
  "forwardHeaders_buf h req = obj_set (copy_headers_buf (req_headers req) []) ''host'' (JStr h)"

definition requestBody_buf :: "platform \<Rightarrow> request \<Rightarrow> string option" where
  "requestBody_buf pf req =
     (if req_method req \<noteq> ''GET'' \<and> req_method req \<noteq> ''HEAD''
      then JSON_stringify pf (req_body req) else None)"

text \<open>Here the key is compared as it is, without lowering.\<close>

fun responseHeaders_buf :: "(string \<times> string) list \<Rightarrow> js_object \<Rightarrow> js_object" where
  "responseHeaders_buf [] acc = acc"
| "responseHeaders_buf ((key, value) # rest) acc =
     (if key = ''transfer-encoding'' \<or> key = ''connection'' then responseHeaders_buf rest acc
      else responseHeaders_buf rest (obj_set acc key (JStr value)))"

definition fetch_init_of_buf :: "platform \<Rightarrow> string \<Rightarrow> request \<Rightarrow> fetch_init" where
  "fetch_init_of_buf pf h req =
     \<lparr> init_method = req_method req, init_headers = forwardHeaders_buf h req,
       init_body = requestBody_buf pf req, init_redirect = ''follow'' \<rparr>"

definition relay_buf :: "upstream_response \<Rightarrow> string \<Rightarrow> reply" where
  "relay_buf response body =
     \<lparr> reply_status = res_status response,
       reply_headers = responseHeaders_buf (res_headers response) [],
       reply_payload = SendValue (JStr body) \<rparr>"

definition handler_buf :: "platform \<Rightarrow> config \<Rightarrow> request \<Rightarrow> outcome \<times> fetch_call list" where
  "handler_buf pf cfg req =
     (if unauthorized cfg req then (Replied unauthorized_reply, [])
      else case url_host pf (CLOB_TARGET cfg) of
        None \<Rightarrow> (Threw, [])
      | Some h \<Rightarrow>
          (let call = (targetUrl cfg req, fetch_init_of_buf pf h req) in
             case fetch pf (fst call) (snd call) of
               Rejected err \<Rightarrow> (Replied (proxy_error_reply err), [call])
             | NeverSettles \<Rightarrow> (NoReply, [call])
             | Resolved response \<Rightarrow>
                 (case response_text response of
                    Rejected err \<Rightarrow> (Replied (proxy_error_reply err), [call])
                  | NeverSettles \<Rightarrow> (NoReply, [call])
                  | Resolved body \<Rightarrow> (Replied (relay_buf response body), [call]))))"

subsection \<open>Routing\<close>

text \<open>
  The routes as registered: \<^verbatim>\<open>app.get("/health")\<close>, for which the framework registers
  the HEAD route as well as the GET route, and every method on \<^verbatim>\<open>/*\<close>; the static
  route wins over the wildcard.

  The router cuts the URL at the first \<open>?\<close> or \<open>#\<close> (or \<open>;\<close>, when
  \<^verbatim>\<open>useSemicolonDelimiter\<close> is set), looking from the second character on, and matches
  the percent-decoded path. The escapes of \<open>% # $ & + , / : ; = ? @\<close> are not decoded. A
  URL with a malformed escape is refused by the framework before any handler runs; here
  its escape is left as it is, so that it matches no static route.
\<close>

text \<open>The URL up to its query string.\<close>

definition path_of :: "string \<Rightarrow> string" where
  "path_of url = takeWhile (\<lambda>c. c \<noteq> CHR ''?'') url"

definition is_delimiter :: "bool \<Rightarrow> char \<Rightarrow> bool" where
  "is_delimiter semi c \<longleftrightarrow> c = CHR ''?'' \<or> c = CHR ''#'' \<or> (c = CHR '';'' \<and> semi)"

definition cut_path :: "bool \<Rightarrow> string \<Rightarrow> string" where
  "cut_path semi url =
     (case url of [] \<Rightarrow> [] | c # cs \<Rightarrow> c # takeWhile (\<lambda>d. \<not> is_delimiter semi d) cs)"

definition hex_digit :: "char \<Rightarrow> nat option" where
  "hex_digit c =
     (let n = (of_char c :: nat) in
        if 48 \<le> n \<and> n \<le> 57 then Some (n - 48)
        else if 65 \<le> n \<and> n \<le> 70 then Some (n - 55)
        else if 97 \<le> n \<and> n \<le> 102 then Some (n - 87)
        else None)"

definition kept_escape :: "nat \<Rightarrow> bool" where
  "kept_escape b \<longleftrightarrow>
     b \<in> {0x25, 0x23, 0x24, 0x26, 0x2B, 0x2C, 0x2F, 0x3A, 0x3B, 0x3D, 0x3F, 0x40}"

fun router_decode :: "string \<Rightarrow> string" where
  "router_decode [] = []"
| "router_decode (c # cs) =
     (if c = CHR ''%'' then
        (case cs of
           x # y # rest \<Rightarrow>
             (case (hex_digit x, hex_digit y) of
                (Some h, Some l) \<Rightarrow>
                  (if kept_escape (16 * h + l) then c # x # y # router_decode rest
                   else char_of (16 * h + l) # router_decode rest)
              | _ \<Rightarrow> c # router_decode cs)
         | _ \<Rightarrow> c # router_decode cs)
      else c # router_decode cs)"

definition route_path :: "platform \<Rightarrow> string \<Rightarrow> string" where
  "route_path pf url = router_decode (cut_path (useSemicolonDelimiter pf) url)"

definition is_health :: "platform \<Rightarrow> request \<Rightarrow> bool" where
  "is_health pf req \<longleftrightarrow>
     (req_method req = ''GET'' \<or> req_method req = ''HEAD'') \<and>
     route_path pf (req_url req) = ''/health''"

definition server :: "platform \<Rightarrow> config \<Rightarrow> request \<Rightarrow> outcome \<times> fetch_call list" where
  "server pf cfg req =
     (if is_health pf req then (Replied (health cfg), []) else handler pf cfg req)"

definition server_buf :: "platform \<Rightarrow> config \<Rightarrow> request \<Rightarrow> outcome \<times> fetch_call list" where
  "server_buf pf cfg req =
     (if is_health pf req then (Replied (health cfg), []) else handler_buf pf cfg req)"

subsection \<open>Test doubles\<close>

text \<open>
  A platform for the concrete examples: \<open>fetch\<close> settles the same way for every call,
  the default upstream is the only URL that parses, and \<open>stringify_double\<close> renders the
  few values the examples use.
\<close>

definition quote :: string where
  "quote = [CHR 0x22]"

fun stringify_double :: "js_value \<Rightarrow> string option" where
  "stringify_double JUndefined = None"
| "stringify_double (JNum n) = (if n = 0 then Some ''0'' else Some ''1'')"
| "stringify_double (JStr s) = Some (quote @ s @ quote)"
| "stringify_double (JObj kvs) =
     (if kvs = [(''a'', JNum 1)] then Some (''{'' @ quote @ ''a'' @ quote @ '':1}'')
      else Some ''{}'')"
| "stringify_double v = Some ''null''"

definition url_host_double :: "string \<Rightarrow> string option" where
  "url_host_double u =
     (if u = ''https://clob.polymarket.com'' then Some ''clob.polymarket.com'' else None)"

definition platform_double :: "upstream_response promise \<Rightarrow> platform" where
  "platform_double result =
     \<lparr> fetch = (\<lambda>u i. result), url_host = url_host_double,
       JSON_stringify = stringify_double, useSemicolonDelimiter = True \<rparr>"

definition config_double :: config where
  "config_double = \<lparr> CLOB_TARGET = ''https://clob.polymarket.com'', API_KEY = ''s3cret'' \<rparr>"

definition ok_response :: upstream_response where
  "ok_response = \<lparr> res_status = 200, res_headers = [], res_body = None \<rparr>"

definition empty_secret_config :: config where
  "empty_secret_config = \<lparr> CLOB_TARGET = ''https://clob.polymarket.com'', API_KEY = [] \<rparr>"

definition keyed_request :: "string \<Rightarrow> string \<Rightarrow> string \<Rightarrow> request" where
  "keyed_request method url key =
     \<lparr> req_method = method, req_url = url,
       req_headers = [(''host'', JStr ''proxy.example''), (''x-proxy-key'', JStr key)],
       req_body = JUndefined \<rparr>"

definition keyless_request :: "string \<Rightarrow> string \<Rightarrow> js_value \<Rightarrow> request" where
  "keyless_request method url body =
     \<lparr> req_method = method, req_url = url,
       req_headers = [(''host'', JStr ''proxy.example'')], req_body = body \<rparr>"

definition keep_alive_response :: upstream_response where
  "keep_alive_response =
     \<lparr> res_status = 200,
       res_headers = [(''connection'', ''keep-alive''), (''content-type'', ''application/json''),
                      (''keep-alive'', ''timeout=5'')],
       res_body = None \<rparr>"

definition traced_request :: request where
  "traced_request =
     \<lparr> req_method = ''POST'', req_url = ''/order'',
       req_headers = [(''host'', JStr ''proxy.example''), (''connection'', JStr ''keep-alive''),
                      (''transfer-encoding'', JStr ''chunked''), (''x-trace-id'', JStr ''abc''),
                      (''x-proxy-key'', JStr ''s3cret'')],
       req_body = JObj [(''a'', JNum 1)] \<rparr>"

definition failing_body_response :: upstream_response where
  "failing_body_response =
     \<lparr> res_status = 200, res_headers = [],
       res_body = Some (BodyStream [''first chunk''] (Fails (JsError ''TypeError'' ''terminated''))) \<rparr>"

definition stalled_body_response :: upstream_response where
  "stalled_body_response =
     \<lparr> res_status = 200, res_headers = [],
       res_body = Some (BodyStream [''first chunk''] Stalls) \<rparr>"

definition typed_request :: "string \<Rightarrow> js_value \<Rightarrow> request" where
  "typed_request content_type body =
     \<lparr> req_method = ''POST'', req_url = ''/order'',
       req_headers = [(''content-type'', JStr content_type)], req_body = body \<rparr>"

section \<open>Properties\<close>

subsection \<open>Objects\<close>

lemma map_of_obj_set: "map_of (obj_set obj k v) = (map_of obj)(k \<mapsto> v)"
  by (induction obj) (auto simp: fun_eq_iff)

lemma obj_get_obj_set: "obj_get (obj_set obj k v) k' = (if k' = k then v else obj_get obj k')"
  by (simp add: obj_get_def map_of_obj_set)

subsection \<open>Routing and the health check\<close>

lemma server_other_method:
  "req_method req \<noteq> ''GET'' \<Longrightarrow> req_method req \<noteq> ''HEAD'' \<Longrightarrow>
     server pf cfg req = handler pf cfg req"
  by (simp add: server_def is_health_def)

lemma server_buf_other_method:
  "req_method req \<noteq> ''GET'' \<Longrightarrow> req_method req \<noteq> ''HEAD'' \<Longrightarrow>
     server_buf pf cfg req = handler_buf pf cfg req"
  by (simp add: server_buf_def is_health_def)

lemma route_health:
  assumes "path_of url = ''/health''"
  shows "route_path pf url = ''/health''"
proof -
  let ?P = "\<lambda>c. c \<noteq> CHR ''?''"
  define r where "r = dropWhile ?P url"
  have u: "url = ''/health'' @ r"
    using assms takeWhile_dropWhile_id [of ?P url] by (simp add: path_of_def r_def)
  have r: "r = [] \<or> hd r = CHR ''?''"
    using hd_dropWhile [of ?P url] by (auto simp: r_def)
  have "cut_path (useSemicolonDelimiter pf) url = ''/health''"
    using r unfolding u by (cases r) (auto simp: cut_path_def is_delimiter_def)
  then show ?thesis
    by (simp add: route_path_def)
qed

lemma handler_unauthorized:
  "unauthorized cfg req \<Longrightarrow> handler pf cfg req = (Replied unauthorized_reply, [])"
  by (simp add: handler_def)

lemma handler_buf_unauthorized:
  "unauthorized cfg req \<Longrightarrow> handler_buf pf cfg req = (Replied unauthorized_reply, [])"
  by (simp add: handler_buf_def)

lemma handler_calls:
  assumes "\<not> unauthorized cfg req" and "url_host pf (CLOB_TARGET cfg) = Some h"
  shows "snd (handler pf cfg req) = [(targetUrl cfg req, fetch_init_of pf h req)]"
  using assms by (simp add: handler_def Let_def split: promise.split)

lemma handler_buf_calls:
  assumes "\<not> unauthorized cfg req" and "url_host pf (CLOB_TARGET cfg) = Some h"
  shows "snd (handler_buf pf cfg req) = [(targetUrl cfg req, fetch_init_of_buf pf h req)]"
  using assms by (simp add: handler_buf_def Let_def split: promise.split)

text \<open>
  The health route answers an escaped spelling of its path, and a path followed by a
  query string or a fragment; a longer path goes to the catch-all handler.
\<close>

lemma route_path_examples:
  "route_path (platform_double (Resolved ok_response)) ''/%68ealth'' = ''/health''"
  "route_path (platform_double (Resolved ok_response)) ''/health?verbose=1'' = ''/health''"
  "route_path (platform_double (Resolved ok_response)) ''/health#top'' = ''/health''"
  "route_path (platform_double (Resolved ok_response)) ''/health/'' = ''/health/''"
  "route_path (platform_double (Resolved ok_response)) ''/health%2Fx'' = ''/health%2Fx''"
  by code_simp+

text \<open>
  C8: a GET request to /health gets status 200 and the body
  \<open>{status: "ok", region: "eu", target: CLOB_TARGET}\<close>, whatever its headers and whatever
  the configured secret, and no upstream call is made. This holds in both servers.
\<close>

theorem health_get:
  assumes "req_method req = ''GET''" and "path_of (req_url req) = ''/health''"
  shows "server pf cfg req =
           (Replied \<lparr> reply_status = 200, reply_headers = [],
                      reply_payload = SendValue (JObj [(''status'', JStr ''ok''),
                        (''region'', JStr ''eu''), (''target'', JStr (CLOB_TARGET cfg))]) \<rparr>, [])
       \<and> server_buf pf cfg req = server pf cfg req"
  using assms(1) route_health [OF assms(2), of pf]
  by (simp add: server_def server_buf_def is_health_def health_def)

theorem health_get_witness:
  "server (platform_double (Resolved ok_response)) config_double
     \<lparr> req_method = ''GET'', req_url = ''/health'',
       req_headers = [(''x-proxy-key'', JStr ''wrong'')], req_body = JUndefined \<rparr> =
     (Replied \<lparr> reply_status = 200, reply_headers = [],
                reply_payload = SendValue (JObj [(''status'', JStr ''ok''),
                  (''region'', JStr ''eu''), (''target'', JStr ''https://clob.polymarket.com'')]) \<rparr>, [])"
  using health_get [of "\<lparr> req_method = ''GET'', req_url = ''/health'',
       req_headers = [(''x-proxy-key'', JStr ''wrong'')], req_body = JUndefined \<rparr>"
       "platform_double (Resolved ok_response)" config_double]
  by (simp add: path_of_def config_double_def)

text \<open>
  C10, as the code has it: a request to /health (or to any path) whose method is neither
  GET nor HEAD is not answered by the health route: it is handled by the catch-all
  handler, which rejects it with the 401 reply when the key check fails and otherwise
  makes the upstream call to \<open>CLOB_TARGET\<close> followed by the request's URL. This holds in
  both servers. A HEAD request to /health is answered by the health route.
\<close>

theorem health_other_method:
  assumes "req_method req \<noteq> ''GET''" and "req_method req \<noteq> ''HEAD''"
  shows "server pf cfg req = handler pf cfg req
       \<and> server_buf pf cfg req = handler_buf pf cfg req
       \<and> (unauthorized cfg req \<longrightarrow>
            server pf cfg req = (Replied unauthorized_reply, []) \<and>
            server_buf pf cfg req = (Replied unauthorized_reply, []))
       \<and> (\<not> unauthorized cfg req \<and> url_host pf (CLOB_TARGET cfg) = Some h \<longrightarrow>
            snd (server pf cfg req) = [(CLOB_TARGET cfg @ req_url req, fetch_init_of pf h req)] \<and>
            snd (server_buf pf cfg req) =
              [(CLOB_TARGET cfg @ req_url req, fetch_init_of_buf pf h req)])"
proof -
  have s: "server pf cfg req = handler pf cfg req"
    using assms by (rule server_other_method)
  have b: "server_buf pf cfg req = handler_buf pf cfg req"
    using assms by (rule server_buf_other_method)
  show ?thesis
    unfolding s b
    by (simp add: handler_unauthorized handler_buf_unauthorized handler_calls
        handler_buf_calls targetUrl_def)
qed

text \<open>
  The claim as worded fails at HEAD: a HEAD request to /health gets the health reply in
  both servers and no upstream call is made, where the catch-all handler would have
  forwarded it.
\<close>

theorem health_other_method_counterexample:
  "server (platform_double (Resolved ok_response)) config_double
     (keyless_request ''HEAD'' ''/health'' JUndefined) =
     (Replied \<lparr> reply_status = 200, reply_headers = [],
                reply_payload = SendValue (JObj [(''status'', JStr ''ok''),
                  (''region'', JStr ''eu''), (''target'', JStr ''https://clob.polymarket.com'')]) \<rparr>, [])
   \<and> server_buf (platform_double (Resolved ok_response)) config_double
     (keyless_request ''HEAD'' ''/health'' JUndefined) =
     (Replied \<lparr> reply_status = 200, reply_headers = [],
                reply_payload = SendValue (JObj [(''status'', JStr ''ok''),
                  (''region'', JStr ''eu''), (''target'', JStr ''https://clob.polymarket.com'')]) \<rparr>, [])
   \<and> snd (handler (platform_double (Resolved ok_response)) config_double
          (keyless_request ''HEAD'' ''/health'' JUndefined)) =
     [(''https://clob.polymarket.com/health'',
       \<lparr> init_method = ''HEAD'', init_headers = [(''host'', JStr ''clob.polymarket.com'')],
         init_body = None, init_redirect = ''follow'' \<rparr>)]"
  by code_simp

lemma url_host_platform_double:
  "url_host (platform_double result) (CLOB_TARGET config_double) = Some ''clob.polymarket.com''"
  by (simp add: platform_double_def url_host_double_def config_double_def)

lemma url_host_empty_secret:
  "url_host (platform_double result) (CLOB_TARGET empty_secret_config) =
     Some ''clob.polymarket.com''"
  by (simp add: platform_double_def url_host_double_def empty_secret_config_def)

theorem health_other_method_witness:
  "snd (server (platform_double (Resolved ok_response)) config_double
          (keyed_request ''POST'' ''/health'' ''s3cret'')) =
     [(''https://clob.polymarket.com/health'',
       fetch_init_of (platform_double (Resolved ok_response)) ''clob.polymarket.com''
         (keyed_request ''POST'' ''/health'' ''s3cret''))]
   \<and> server (platform_double (Resolved ok_response)) config_double
          (keyed_request ''POST'' ''/health'' ''wrong'') = (Replied unauthorized_reply, [])"
proof -
  have m: "req_method (keyed_request ''POST'' ''/health'' k) \<noteq> ''GET''"
    "req_method (keyed_request ''POST'' ''/health'' k) \<noteq> ''HEAD''" for k
    by (simp_all add: keyed_request_def)
  have ok: "\<not> unauthorized config_double (keyed_request ''POST'' ''/health'' ''s3cret'')"
    by (simp add: unauthorized_def keyed_request_def config_double_def obj_get_def)
  have bad: "unauthorized config_double (keyed_request ''POST'' ''/health'' ''wrong'')"
    by (simp add: unauthorized_def keyed_request_def config_double_def obj_get_def)
  have u: "CLOB_TARGET config_double @ req_url (keyed_request ''POST'' ''/health'' ''s3cret'') =
             ''https://clob.polymarket.com/health''"
    by (simp add: config_double_def keyed_request_def)
  have a: "snd (server (platform_double (Resolved ok_response)) config_double
                 (keyed_request ''POST'' ''/health'' ''s3cret'')) =
             [(CLOB_TARGET config_double @ req_url (keyed_request ''POST'' ''/health'' ''s3cret''),
               fetch_init_of (platform_double (Resolved ok_response)) ''clob.polymarket.com''
                 (keyed_request ''POST'' ''/health'' ''s3cret''))]"
    using health_other_method [OF m, of "platform_double (Resolved ok_response)" config_double
        "''s3cret''" "''clob.polymarket.com''"]
      ok url_host_platform_double [of "Resolved ok_response"]
    by blast
  have b: "server (platform_double (Resolved ok_response)) config_double
             (keyed_request ''POST'' ''/health'' ''wrong'') = (Replied unauthorized_reply, [])"
    using health_other_method [OF m, of "platform_double (Resolved ok_response)" config_double
        "''wrong''" "''clob.polymarket.com''"] bad
    by blast
  show ?thesis
    using a b unfolding u by simp
qed

subsection \<open>The key check\<close>

text \<open>
  C1: for a request whose method is neither GET nor HEAD, with a non-empty configured
  secret, the request is forwarded if and only if the value of its \<open>x-proxy-key\<close> header
  equals the secret: when it does (and the upstream base URL parses) exactly one upstream
  call is made; when the header differs or is absent the reply is 401 with the body
  \<open>{error: "Unauthorized - invalid X-Proxy-Key"}\<close> (with the source's dash) and no
  upstream call is made. This holds in both servers.
\<close>

theorem write_requires_key:
  assumes "req_method req \<noteq> ''GET''" and "req_method req \<noteq> ''HEAD''"
    and "API_KEY cfg \<noteq> []"
  shows "(obj_get (req_headers req) ''x-proxy-key'' = JStr (API_KEY cfg) \<and>
          url_host pf (CLOB_TARGET cfg) = Some h \<longrightarrow>
            snd (server pf cfg req) = [(CLOB_TARGET cfg @ req_url req, fetch_init_of pf h req)] \<and>
            snd (server_buf pf cfg req) =
              [(CLOB_TARGET cfg @ req_url req, fetch_init_of_buf pf h req)])
       \<and> (obj_get (req_headers req) ''x-proxy-key'' \<noteq> JStr (API_KEY cfg) \<longrightarrow>
            server pf cfg req =
              (Replied \<lparr> reply_status = 401, reply_headers = [],
                 reply_payload = SendValue (JObj [(''error'',
                   JStr (''Unauthorized '' @ [CHR 0xE2, CHR 0x80, CHR 0x94] @
                         '' invalid X-Proxy-Key''))]) \<rparr>, []) \<and>
            server_buf pf cfg req = server pf cfg req)"
proof -
  have s: "server pf cfg req = handler pf cfg req"
    using assms(1,2) by (rule server_other_method)
  have b: "server_buf pf cfg req = handler_buf pf cfg req"
    using assms(1,2) by (rule server_buf_other_method)
  have u: "unauthorized cfg req \<longleftrightarrow>
             obj_get (req_headers req) ''x-proxy-key'' \<noteq> JStr (API_KEY cfg)"
    using assms by (simp add: unauthorized_def)
  show ?thesis
    unfolding s b using u
    by (simp add: handler_unauthorized handler_buf_unauthorized handler_calls
        handler_buf_calls targetUrl_def unauthorized_reply_def unauthorized_message_def)
qed

theorem write_requires_key_witness:
  "snd (server (platform_double (Resolved ok_response)) config_double
          (keyed_request ''POST'' ''/order'' ''s3cret'')) =
     [(''https://clob.polymarket.com/order'',
       fetch_init_of (platform_double (Resolved ok_response)) ''clob.polymarket.com''
         (keyed_request ''POST'' ''/order'' ''s3cret''))]
   \<and> server (platform_double (Resolved ok_response)) config_double
          (keyed_request ''POST'' ''/order'' ''S3cret'') = (Replied unauthorized_reply, [])
   \<and> server (platform_double (Resolved ok_response)) config_double
          (keyless_request ''DELETE'' ''/order'' JUndefined) = (Replied unauthorized_reply, [])"
proof -
  let ?pf = "platform_double (Resolved ok_response)"
  have k: "req_method (keyed_request ''POST'' ''/order'' k) \<noteq> ''GET''"
    "req_method (keyed_request ''POST'' ''/order'' k) \<noteq> ''HEAD''"
    "obj_get (req_headers (keyed_request ''POST'' ''/order'' k)) ''x-proxy-key'' = JStr k"
    "req_url (keyed_request ''POST'' ''/order'' k) = ''/order''" for k
    by (simp_all add: keyed_request_def obj_get_def)
  have n: "req_method (keyless_request ''DELETE'' ''/order'' JUndefined) \<noteq> ''GET''"
    "req_method (keyless_request ''DELETE'' ''/order'' JUndefined) \<noteq> ''HEAD''"
    "obj_get (req_headers (keyless_request ''DELETE'' ''/order'' JUndefined)) ''x-proxy-key'' =
       JUndefined"
    by (simp_all add: keyless_request_def obj_get_def)
  have c: "API_KEY config_double \<noteq> []" "API_KEY config_double = ''s3cret''"
    "CLOB_TARGET config_double = ''https://clob.polymarket.com''"
    by (simp_all add: config_double_def)
  have h: "url_host ?pf ''https://clob.polymarket.com'' = Some ''clob.polymarket.com''"
    by (simp add: platform_double_def url_host_double_def)
  from write_requires_key [OF k(1) k(2) c(1), of "''s3cret''" ?pf "''clob.polymarket.com''"]
    write_requires_key [OF k(1) k(2) c(1), of "''S3cret''" ?pf]
    write_requires_key [OF n(1) n(2) c(1), of ?pf]
  show ?thesis
    by (simp add: k n c h unauthorized_reply_def unauthorized_message_def)
qed

text \<open>
  C2: a GET or HEAD request passes the key check and is forwarded by one upstream call,
  for every configured secret and every header object; and with the empty secret a
  request of any method passes the check and is forwarded (the upstream base URL being
  one that parses). This is the catch-all handler of both servers; GET /health is
  answered before it by the health route.
\<close>

theorem reads_never_blocked:
  assumes "req_method req = ''GET'' \<or> req_method req = ''HEAD'' \<or> API_KEY cfg = []"
    and "url_host pf (CLOB_TARGET cfg) = Some h"
  shows "\<not> unauthorized cfg req
       \<and> snd (handler pf cfg req) = [(CLOB_TARGET cfg @ req_url req, fetch_init_of pf h req)]
       \<and> snd (handler_buf pf cfg req) =
           [(CLOB_TARGET cfg @ req_url req, fetch_init_of_buf pf h req)]"
proof -
  have u: "\<not> unauthorized cfg req"
    using assms(1) by (auto simp: unauthorized_def)
  show ?thesis
    using u assms(2) by (simp add: handler_calls handler_buf_calls targetUrl_def)
qed

theorem reads_never_blocked_witness:
  "snd (handler (platform_double (Resolved ok_response)) config_double
          (keyed_request ''GET'' ''/book?token_id=1'' ''wrong'')) =
     [(''https://clob.polymarket.com/book?token_id=1'',
       fetch_init_of (platform_double (Resolved ok_response)) ''clob.polymarket.com''
         (keyed_request ''GET'' ''/book?token_id=1'' ''wrong''))]
   \<and> snd (handler (platform_double (Resolved ok_response)) config_double
          (keyless_request ''HEAD'' ''/time'' JUndefined)) =
     [(''https://clob.polymarket.com/time'',
       fetch_init_of (platform_double (Resolved ok_response)) ''clob.polymarket.com''
         (keyless_request ''HEAD'' ''/time'' JUndefined))]
   \<and> snd (handler (platform_double (Resolved ok_response)) empty_secret_config
          (keyless_request ''POST'' ''/order'' JUndefined)) =
     [(''https://clob.polymarket.com/order'',
       fetch_init_of (platform_double (Resolved ok_response)) ''clob.polymarket.com''
         (keyless_request ''POST'' ''/order'' JUndefined))]"
proof -
  let ?pf = "platform_double (Resolved ok_response)"
  have g: "req_method (keyed_request ''GET'' ''/book?token_id=1'' ''wrong'') = ''GET'' \<or>
           req_method (keyed_request ''GET'' ''/book?token_id=1'' ''wrong'') = ''HEAD'' \<or>
           API_KEY config_double = []"
    by (simp add: keyed_request_def)
  have hd: "req_method (keyless_request ''HEAD'' ''/time'' JUndefined) = ''GET'' \<or>
            req_method (keyless_request ''HEAD'' ''/time'' JUndefined) = ''HEAD'' \<or>
            API_KEY config_double = []"
    by (simp add: keyless_request_def)
  have e: "req_method (keyless_request ''POST'' ''/order'' JUndefined) = ''GET'' \<or>
           req_method (keyless_request ''POST'' ''/order'' JUndefined) = ''HEAD'' \<or>
           API_KEY empty_secret_config = []"
    by (simp add: empty_secret_config_def)
  from reads_never_blocked [OF g url_host_platform_double [of "Resolved ok_response"]]
    reads_never_blocked [OF hd url_host_platform_double [of "Resolved ok_response"]]
    reads_never_blocked [OF e url_host_empty_secret [of "Resolved ok_response"]]
  show ?thesis
    by (simp add: keyed_request_def keyless_request_def config_double_def
        empty_secret_config_def)
qed

subsection \<open>Requests without a body\<close>

lemma requestBody_read:
  "req_method req = ''GET'' \<or> req_method req = ''HEAD'' \<Longrightarrow> requestBody pf req = None"
  by (auto simp: requestBody_def has_request_body_def)

lemma forwardHeaders_read:
  "req_method req = ''GET'' \<or> req_method req = ''HEAD'' \<Longrightarrow>
     forwardHeaders h req = host_headers h req"
  by (auto simp: forwardHeaders_def has_request_body_def)

lemma requestBody_buf_read:
  "req_method req = ''GET'' \<or> req_method req = ''HEAD'' \<Longrightarrow> requestBody_buf pf req = None"
  by (auto simp: requestBody_buf_def)

text \<open>
  C9: for a GET or HEAD request the catch-all handler makes one upstream call; its URL is
  \<open>CLOB_TARGET\<close> followed by the request's raw URL and its body is absent, whatever body
  the caller supplied. This holds in both servers; in the whole server, where GET /health
  makes no call at all, every call made for a GET or HEAD request has this URL and no
  body.
\<close>

theorem reads_carry_no_body:
  assumes "req_method req = ''GET'' \<or> req_method req = ''HEAD''"
    and "url_host pf (CLOB_TARGET cfg) = Some h"
  shows "snd (handler pf cfg req) =
           [(CLOB_TARGET cfg @ req_url req,
             \<lparr> init_method = req_method req, init_headers = host_headers h req,
               init_body = None, init_redirect = ''follow'' \<rparr>)]
       \<and> snd (handler_buf pf cfg req) =
           [(CLOB_TARGET cfg @ req_url req,
             \<lparr> init_method = req_method req, init_headers = forwardHeaders_buf h req,
               init_body = None, init_redirect = ''follow'' \<rparr>)]
       \<and> list_all (\<lambda>c. fst c = CLOB_TARGET cfg @ req_url req \<and> init_body (snd c) = None)
           (snd (server pf cfg req))
       \<and> list_all (\<lambda>c. fst c = CLOB_TARGET cfg @ req_url req \<and> init_body (snd c) = None)
           (snd (server_buf pf cfg req))"
proof -
  have u: "\<not> unauthorized cfg req"
    using assms(1) by (auto simp: unauthorized_def)
  have a: "snd (handler pf cfg req) =
             [(CLOB_TARGET cfg @ req_url req,
               \<lparr> init_method = req_method req, init_headers = host_headers h req,
                 init_body = None, init_redirect = ''follow'' \<rparr>)]"
    using handler_calls [OF u assms(2)] requestBody_read [OF assms(1)]
      forwardHeaders_read [OF assms(1)]
    by (simp add: targetUrl_def fetch_init_of_def)
  have b: "snd (handler_buf pf cfg req) =
             [(CLOB_TARGET cfg @ req_url req,
               \<lparr> init_method = req_method req, init_headers = forwardHeaders_buf h req,
                 init_body = None, init_redirect = ''follow'' \<rparr>)]"
    using handler_buf_calls [OF u assms(2)] requestBody_buf_read [OF assms(1)]
    by (simp add: targetUrl_def fetch_init_of_buf_def)
  have c: "list_all (\<lambda>c. fst c = CLOB_TARGET cfg @ req_url req \<and> init_body (snd c) = None)
             (snd (server pf cfg req))"
    using a by (simp add: server_def)
  have d: "list_all (\<lambda>c. fst c = CLOB_TARGET cfg @ req_url req \<and> init_body (snd c) = None)
             (snd (server_buf pf cfg req))"
    using b by (simp add: server_buf_def)
  from a b c d show ?thesis by blast
qed

theorem reads_carry_no_body_witness:
  "snd (handler (platform_double (Resolved ok_response)) config_double
          (keyless_request ''GET'' ''/book?token_id=1'' (JObj [(''a'', JNum 1)]))) =
     [(''https://clob.polymarket.com/book?token_id=1'',
       \<lparr> init_method = ''GET'', init_headers = [(''host'', JStr ''clob.polymarket.com'')],
         init_body = None, init_redirect = ''follow'' \<rparr>)]
   \<and> snd (handler_buf (platform_double (Resolved ok_response)) config_double
          (keyless_request ''GET'' ''/book?token_id=1'' (JObj [(''a'', JNum 1)]))) =
     [(''https://clob.polymarket.com/book?token_id=1'',
       \<lparr> init_method = ''GET'', init_headers = [(''host'', JStr ''clob.polymarket.com'')],
         init_body = None, init_redirect = ''follow'' \<rparr>)]"
proof -
  let ?req = "keyless_request ''GET'' ''/book?token_id=1'' (JObj [(''a'', JNum 1)])"
  have g: "req_method ?req = ''GET'' \<or> req_method ?req = ''HEAD''"
    by (simp add: keyless_request_def)
  have s: "skipped_request_header ''host''" "skipped_request_header_buf ''host''"
    by code_simp+
  have hh: "host_headers ''clob.polymarket.com'' ?req = [(''host'', JStr ''clob.polymarket.com'')]"
    using s by (simp add: host_headers_def keyless_request_def)
  have hb: "forwardHeaders_buf ''clob.polymarket.com'' ?req =
              [(''host'', JStr ''clob.polymarket.com'')]"
    using s by (simp add: forwardHeaders_buf_def keyless_request_def)
  have r: "req_method ?req = ''GET''" "req_url ?req = ''/book?token_id=1''"
    "CLOB_TARGET config_double = ''https://clob.polymarket.com''"
    by (simp_all add: keyless_request_def config_double_def)
  from reads_carry_no_body [OF g url_host_platform_double [of "Resolved ok_response"]]
  show ?thesis
    unfolding hh hb r by simp
qed

subsection \<open>Header filtering\<close>

lemma skipped_request_header_iff:
  "skipped_request_header k \<longleftrightarrow>
     toLowerCase k \<in> {''host'', ''x-proxy-key'', ''connection'', ''keep-alive'',
                       ''transfer-encoding'', ''content-length''}"
  by (simp add: skipped_request_header_def Let_def)

lemma skipped_response_header_iff:
  "skipped_response_header k \<longleftrightarrow>
     toLowerCase k \<in> {''transfer-encoding'', ''connection'', ''content-encoding''}"
  by (simp add: skipped_response_header_def Let_def)

lemma skipped_host: "skipped_request_header ''host''"
  by code_simp

lemma not_skipped_content_type: "\<not> skipped_request_header ''content-type''"
  by code_simp

lemma map_of_copy_headers:
  "distinct (map fst hs) \<Longrightarrow>
     map_of (copy_headers hs acc) k =
       (if skipped_request_header k then map_of acc k
        else case map_of hs k of None \<Rightarrow> map_of acc k | Some v \<Rightarrow> Some v)"
proof (induction hs arbitrary: acc)
  case Nil
  then show ?case by simp
next
  case (Cons p hs)
  obtain key v where p: "p = (key, v)" by (cases p)
  from Cons.prems p have fresh: "map_of hs key = None" and d: "distinct (map fst hs)"
    by (auto simp: map_of_eq_None_iff)
  show ?case
  proof (cases "skipped_request_header key")
    case True
    then show ?thesis
      using Cons.IH [OF d, of acc] p by auto
  next
    case False
    then show ?thesis
      using Cons.IH [OF d, of "obj_set acc key v"] p fresh
      by (auto simp: map_of_obj_set split: option.splits)
  qed
qed

lemma map_of_host_headers:
  "distinct (map fst (req_headers req)) \<Longrightarrow>
     map_of (host_headers h req) k =
       (if k = ''host'' then Some (JStr h)
        else if skipped_request_header k then None
        else map_of (req_headers req) k)"
  by (simp add: host_headers_def map_of_obj_set map_of_copy_headers split: option.split)

lemma map_of_forwardHeaders:
  assumes "distinct (map fst (req_headers req))"
  shows "map_of (forwardHeaders h req) k =
       (if k = ''host'' then Some (JStr h)
        else if skipped_request_header k then None
        else if k = ''content-type'' \<and> has_request_body req \<and>
                \<not> truthy (obj_get (req_headers req) ''content-type'')
          then Some (JStr ''application/json'')
        else map_of (req_headers req) k)"
proof -
  have ct: "obj_get (host_headers h req) ''content-type'' =
              obj_get (req_headers req) ''content-type''"
    using not_skipped_content_type
    by (simp add: obj_get_def map_of_host_headers [OF assms])
  have present: "map_of (req_headers req) ''content-type'' =
                   Some (obj_get (req_headers req) ''content-type'')"
    if "truthy (obj_get (req_headers req) ''content-type'')"
    using that by (auto simp: obj_get_def split: option.splits)
  show ?thesis
    using not_skipped_content_type present
    by (auto simp: forwardHeaders_def Let_def ct map_of_obj_set map_of_host_headers [OF assms])
qed

lemma map_of_responseHeaders:
  "map_of (responseHeaders rh acc) k =
     (if skipped_response_header k then map_of acc k
      else case map_of (rev rh) k of None \<Rightarrow> map_of acc k | Some v \<Rightarrow> Some (JStr v))"
proof (induction rh arbitrary: acc)
  case Nil
  then show ?case by simp
next
  case (Cons p rh)
  obtain key v where p: "p = (key, v)" by (cases p)
  show ?case
  proof (cases "skipped_response_header key")
    case True
    then show ?thesis
      using Cons.IH [of acc] p
      by (auto simp: map_add_def split: option.splits)
  next
    case False
    then show ?thesis
      using Cons.IH [of "obj_set acc key (JStr v)"] p
      by (auto simp: map_of_obj_set map_add_def split: option.splits)
  qed
qed

lemma handler_resolved:
  assumes "\<not> unauthorized cfg req" and "url_host pf (CLOB_TARGET cfg) = Some h"
    and "fetch pf (targetUrl cfg req) (fetch_init_of pf h req) = Resolved response"
  shows "handler pf cfg req =
           (Replied (relay response), [(targetUrl cfg req, fetch_init_of pf h req)])"
  using assms by (simp add: handler_def)

lemma map_of_rev_once:
  "count_list (map fst rh) k \<le> 1 \<Longrightarrow> map_of (rev rh) k = map_of rh k"
proof (induction rh)
  case Nil
  then show ?case by simp
next
  case (Cons p rh)
  show ?case
  proof (cases "fst p = k")
    case True
    with Cons.prems have "count_list (map fst rh) k = 0" by simp
    then have "k \<notin> fst ` set rh" by (simp add: count_list_0_iff)
    then have "map_of (rev rh) k = None" by (simp add: map_of_eq_None_iff)
    with True show ?thesis by (simp add: map_add_def)
  next
    case False
    with Cons show ?thesis by (simp add: map_add_def split: option.split)
  qed
qed

text \<open>
  C3, as the code has it (\<^verbatim>\<open>src/server.js\<close>). When a request is forwarded and the
  upstream's response relayed: the outbound headers have \<open>host\<close> set to the host of the
  upstream base URL; they omit every inbound header whose lowered name is host,
  x-proxy-key, connection, keep-alive, transfer-encoding or content-length; every other
  inbound header is there with its value unchanged, except that \<open>content-type\<close> is
  \<open>application/json\<close> when a body is sent and the inbound content type is absent or empty.
  The relayed headers omit every upstream header whose lowered name is transfer-encoding,
  connection or content-encoding, and hold every other upstream header whose name occurs
  once among the upstream's header entries (keep-alive and host among them) with its
  value. The two legs do not filter the same set. The inbound headers are an object, so
  their names are distinct; nothing is said here of an upstream header name that occurs
  several times.
\<close>

theorem header_filtering:
  assumes "\<not> unauthorized cfg req" and "url_host pf (CLOB_TARGET cfg) = Some h"
    and "fetch pf (targetUrl cfg req) (fetch_init_of pf h req) = Resolved response"
    and "distinct (map fst (req_headers req))"
  shows "handler pf cfg req =
           (Replied (relay response), [(targetUrl cfg req, fetch_init_of pf h req)])
       \<and> (\<forall>k. map_of (init_headers (fetch_init_of pf h req)) k =
            (if k = ''host'' then Some (JStr h)
             else if toLowerCase k \<in> {''host'', ''x-proxy-key'', ''connection'', ''keep-alive'',
                                        ''transfer-encoding'', ''content-length''} then None
             else if k = ''content-type'' \<and> has_request_body req \<and>
                     \<not> truthy (obj_get (req_headers req) ''content-type'')
               then Some (JStr ''application/json'')
             else map_of (req_headers req) k))
       \<and> (\<forall>k. toLowerCase k \<in> {''transfer-encoding'', ''connection'', ''content-encoding''} \<longrightarrow>
            map_of (reply_headers (relay response)) k = None)
       \<and> (\<forall>k. toLowerCase k \<notin> {''transfer-encoding'', ''connection'', ''content-encoding''} \<and>
               count_list (map fst (res_headers response)) k \<le> 1 \<longrightarrow>
            map_of (reply_headers (relay response)) k =
              map_option JStr (map_of (res_headers response) k))"
proof -
  have out: "map_of (init_headers (fetch_init_of pf h req)) k =
            (if k = ''host'' then Some (JStr h)
             else if toLowerCase k \<in> {''host'', ''x-proxy-key'', ''connection'', ''keep-alive'',
                                        ''transfer-encoding'', ''content-length''} then None
             else if k = ''content-type'' \<and> has_request_body req \<and>
                     \<not> truthy (obj_get (req_headers req) ''content-type'')
               then Some (JStr ''application/json'')
             else map_of (req_headers req) k)" for k
    unfolding skipped_request_header_iff [symmetric]
    by (simp add: fetch_init_of_def map_of_forwardHeaders [OF assms(4)])
  have gone: "map_of (reply_headers (relay response)) k = None"
    if "toLowerCase k \<in> {''transfer-encoding'', ''connection'', ''content-encoding''}" for k
    using that unfolding skipped_response_header_iff [symmetric]
    by (simp add: relay_def map_of_responseHeaders)
  have kept: "map_of (reply_headers (relay response)) k =
                map_option JStr (map_of (res_headers response) k)"
    if "toLowerCase k \<notin> {''transfer-encoding'', ''connection'', ''content-encoding''}"
      and "count_list (map fst (res_headers response)) k \<le> 1" for k
    using that(1) map_of_rev_once [OF that(2)]
    unfolding skipped_response_header_iff [symmetric]
    by (simp add: relay_def map_of_responseHeaders split: option.split)
  from handler_resolved [OF assms(1-3)] out gone kept show ?thesis
    by blast
qed

theorem header_filtering_witness:
  "map_of (init_headers (fetch_init_of (platform_double (Resolved keep_alive_response))
       ''clob.polymarket.com'' traced_request)) ''x-trace-id'' = Some (JStr ''abc'')
   \<and> map_of (init_headers (fetch_init_of (platform_double (Resolved keep_alive_response))
       ''clob.polymarket.com'' traced_request)) ''connection'' = None
   \<and> map_of (init_headers (fetch_init_of (platform_double (Resolved keep_alive_response))
       ''clob.polymarket.com'' traced_request)) ''transfer-encoding'' = None
   \<and> map_of (init_headers (fetch_init_of (platform_double (Resolved keep_alive_response))
       ''clob.polymarket.com'' traced_request)) ''host'' = Some (JStr ''clob.polymarket.com'')
   \<and> map_of (reply_headers (relay keep_alive_response)) ''connection'' = None
   \<and> map_of (reply_headers (relay keep_alive_response)) ''keep-alive'' =
       Some (JStr ''timeout=5'')"
proof -
  let ?pf = "platform_double (Resolved keep_alive_response)"
  have u: "\<not> unauthorized config_double traced_request"
    by (simp add: unauthorized_def traced_request_def config_double_def obj_get_def)
  have f: "fetch ?pf (targetUrl config_double traced_request)
             (fetch_init_of ?pf ''clob.polymarket.com'' traced_request) =
           Resolved keep_alive_response"
    by (simp add: platform_double_def)
  have d: "distinct (map fst (req_headers traced_request))"
    by (simp add: traced_request_def)
  have low: "toLowerCase ''x-trace-id'' = ''x-trace-id''"
    "toLowerCase ''connection'' = ''connection''"
    "toLowerCase ''transfer-encoding'' = ''transfer-encoding''"
    "toLowerCase ''keep-alive'' = ''keep-alive''"
    by code_simp+
  have rq: "map_of (req_headers traced_request) ''x-trace-id'' = Some (JStr ''abc'')"
    by (simp add: traced_request_def)
  have rs: "map_of (res_headers keep_alive_response) ''keep-alive'' = Some ''timeout=5''"
    "count_list (map fst (res_headers keep_alive_response)) ''keep-alive'' \<le> 1"
    by (simp_all add: keep_alive_response_def)
  have c: "toLowerCase ''connection'' \<in>
             {''transfer-encoding'', ''connection'', ''content-encoding''}"
    "toLowerCase ''keep-alive'' \<notin>
             {''transfer-encoding'', ''connection'', ''content-encoding''}"
    by (simp_all add: low)
  note hf = header_filtering [OF u url_host_platform_double [of "Resolved keep_alive_response"] f d]
  from hf
  have out: "\<And>k. map_of (init_headers (fetch_init_of ?pf ''clob.polymarket.com''
                 traced_request)) k =
            (if k = ''host'' then Some (JStr ''clob.polymarket.com'')
             else if toLowerCase k \<in> {''host'', ''x-proxy-key'', ''connection'', ''keep-alive'',
                                        ''transfer-encoding'', ''content-length''} then None
             else if k = ''content-type'' \<and> has_request_body traced_request \<and>
                     \<not> truthy (obj_get (req_headers traced_request) ''content-type'')
               then Some (JStr ''application/json'')
             else map_of (req_headers traced_request) k)"
    by blast
  from hf c(1)
  have gone: "map_of (reply_headers (relay keep_alive_response)) ''connection'' = None"
    by blast
  from hf c(2) rs(2)
  have kept: "map_of (reply_headers (relay keep_alive_response)) ''keep-alive'' =
                map_option JStr (map_of (res_headers keep_alive_response) ''keep-alive'')"
    by blast
  show ?thesis
    unfolding out gone kept by (simp add: low rq rs)
qed

text \<open>
  The claim as worded fails on the response leg: an upstream \<open>keep-alive\<close> header, which
  the request leg removes, is relayed to the caller.
\<close>

theorem header_filtering_counterexample:
  "fst (handler (platform_double (Resolved keep_alive_response)) config_double traced_request) =
     Replied \<lparr> reply_status = 200,
               reply_headers = [(''content-type'', JStr ''application/json''),
                                (''keep-alive'', JStr ''timeout=5'')],
               reply_payload = SendValue (JStr []) \<rparr>"
  by code_simp

subsection \<open>Failures of the upstream call\<close>

lemma handler_rejected:
  assumes "\<not> unauthorized cfg req" and "url_host pf (CLOB_TARGET cfg) = Some h"
    and "fetch pf (targetUrl cfg req) (fetch_init_of pf h req) = Rejected err"
  shows "handler pf cfg req =
           (Replied (proxy_error_reply err), [(targetUrl cfg req, fetch_init_of pf h req)])"
  using assms by (simp add: handler_def)

lemma handler_pending:
  assumes "\<not> unauthorized cfg req" and "url_host pf (CLOB_TARGET cfg) = Some h"
    and "fetch pf (targetUrl cfg req) (fetch_init_of pf h req) = NeverSettles"
  shows "handler pf cfg req = (NoReply, [(targetUrl cfg req, fetch_init_of pf h req)])"
  using assms by (simp add: handler_def)

lemma handler_buf_rejected:
  assumes "\<not> unauthorized cfg req" and "url_host pf (CLOB_TARGET cfg) = Some h"
    and "fetch pf (targetUrl cfg req) (fetch_init_of_buf pf h req) = Rejected err"
  shows "handler_buf pf cfg req =
           (Replied (proxy_error_reply err), [(targetUrl cfg req, fetch_init_of_buf pf h req)])"
  using assms by (simp add: handler_buf_def)

lemma handler_buf_pending:
  assumes "\<not> unauthorized cfg req" and "url_host pf (CLOB_TARGET cfg) = Some h"
    and "fetch pf (targetUrl cfg req) (fetch_init_of_buf pf h req) = NeverSettles"
  shows "handler_buf pf cfg req = (NoReply, [(targetUrl cfg req, fetch_init_of_buf pf h req)])"
  using assms by (simp add: handler_buf_def)

lemma handler_buf_resolved:
  assumes "\<not> unauthorized cfg req" and "url_host pf (CLOB_TARGET cfg) = Some h"
    and "fetch pf (targetUrl cfg req) (fetch_init_of_buf pf h req) = Resolved response"
  shows "handler_buf pf cfg req =
           (case response_text response of
              Rejected err \<Rightarrow> Replied (proxy_error_reply err)
            | NeverSettles \<Rightarrow> NoReply
            | Resolved body \<Rightarrow> Replied (relay_buf response body),
            [(targetUrl cfg req, fetch_init_of_buf pf h req)])"
  using assms by (simp add: handler_buf_def Let_def split: promise.split)

lemma handler_not_threw:
  assumes "url_host pf (CLOB_TARGET cfg) = Some h"
  shows "fst (handler pf cfg req) \<noteq> Threw" and "fst (handler_buf pf cfg req) \<noteq> Threw"
  using assms by (simp_all add: handler_def handler_buf_def Let_def split: promise.split)

lemma String_err_empty: "String_err (JsError name msg) = [] \<longleftrightarrow> name = [] \<and> msg = []"
  by simp

text \<open>
  C4, as the code has it. When the \<open>fetch\<close> call of a forwarded request rejects
  (connection failure, a timeout of the runtime, a protocol error), the reply is 502 with
  the body \<open>{error: "Proxy error", detail: String(err)}\<close>, the detail being non-empty when
  the error has a name or a message, and nothing is thrown out of the handler; this holds
  in both servers, and the buffered server also answers 502 when reading the body
  (\<open>response.text()\<close>) fails. In \<^verbatim>\<open>src/server.js\<close>, once \<open>fetch\<close> has resolved, the
  upstream's status and headers are relayed with the body stream as it is: a failure
  while that stream is read is not turned into a 502.
\<close>

theorem upstream_failure:
  assumes "\<not> unauthorized cfg req" and "url_host pf (CLOB_TARGET cfg) = Some h"
  shows "(fetch pf (targetUrl cfg req) (fetch_init_of pf h req) = Rejected err \<longrightarrow>
            fst (handler pf cfg req) =
              Replied \<lparr> reply_status = 502, reply_headers = [],
                reply_payload = SendValue (JObj [(''error'', JStr ''Proxy error''),
                                                 (''detail'', JStr (String_err err))]) \<rparr>)
       \<and> (fetch pf (targetUrl cfg req) (fetch_init_of_buf pf h req) = Rejected err \<or>
          fetch pf (targetUrl cfg req) (fetch_init_of_buf pf h req) = Resolved response \<and>
            response_text response = Rejected err \<longrightarrow>
            fst (handler_buf pf cfg req) =
              Replied \<lparr> reply_status = 502, reply_headers = [],
                reply_payload = SendValue (JObj [(''error'', JStr ''Proxy error''),
                                                 (''detail'', JStr (String_err err))]) \<rparr>)
       \<and> (name \<noteq> [] \<or> msg \<noteq> [] \<longrightarrow> String_err (JsError name msg) \<noteq> [])
       \<and> fst (handler pf cfg req) \<noteq> Threw \<and> fst (handler_buf pf cfg req) \<noteq> Threw
       \<and> (fetch pf (targetUrl cfg req) (fetch_init_of pf h req) = Resolved response \<longrightarrow>
            fst (handler pf cfg req) =
              Replied \<lparr> reply_status = res_status response,
                reply_headers = responseHeaders (res_headers response) [],
                reply_payload = (case res_body response of
                                   Some nodeStream \<Rightarrow> SendStream nodeStream
                                 | None \<Rightarrow> SendValue (JStr [])) \<rparr>)"
proof -
  have a: "fetch pf (targetUrl cfg req) (fetch_init_of pf h req) = Rejected err \<Longrightarrow>
             fst (handler pf cfg req) = Replied (proxy_error_reply err)"
    using handler_rejected [OF assms] by simp
  have b: "fetch pf (targetUrl cfg req) (fetch_init_of_buf pf h req) = Rejected err \<Longrightarrow>
             fst (handler_buf pf cfg req) = Replied (proxy_error_reply err)"
    using handler_buf_rejected [OF assms] by simp
  have c: "fetch pf (targetUrl cfg req) (fetch_init_of_buf pf h req) = Resolved response \<Longrightarrow>
             response_text response = Rejected err \<Longrightarrow>
             fst (handler_buf pf cfg req) = Replied (proxy_error_reply err)"
    using handler_buf_resolved [OF assms] by simp
  have d: "fetch pf (targetUrl cfg req) (fetch_init_of pf h req) = Resolved response \<Longrightarrow>
             fst (handler pf cfg req) = Replied (relay response)"
    using handler_resolved [OF assms] by simp
  have e: "name \<noteq> [] \<or> msg \<noteq> [] \<longrightarrow> String_err (JsError name msg) \<noteq> []"
    using String_err_empty [of name msg] by blast
  from a b c d e handler_not_threw [OF assms(2)] show ?thesis
    unfolding proxy_error_reply_def relay_def by blast
qed

theorem upstream_failure_witness:
  "fst (handler (platform_double (Rejected (JsError ''TypeError'' ''fetch failed''))) config_double
          (keyless_request ''GET'' ''/book'' JUndefined)) =
     Replied \<lparr> reply_status = 502, reply_headers = [],
       reply_payload = SendValue (JObj [(''error'', JStr ''Proxy error''),
                                        (''detail'', JStr ''TypeError: fetch failed'')]) \<rparr>
   \<and> fst (handler_buf (platform_double (Resolved failing_body_response)) config_double
          (keyless_request ''GET'' ''/book'' JUndefined)) =
     Replied \<lparr> reply_status = 502, reply_headers = [],
       reply_payload = SendValue (JObj [(''error'', JStr ''Proxy error''),
                                        (''detail'', JStr ''TypeError: terminated'')]) \<rparr>
   \<and> fst (handler (platform_double (Resolved ok_response)) config_double
          (keyless_request ''GET'' ''/book'' JUndefined)) =
     Replied \<lparr> reply_status = 200, reply_headers = [], reply_payload = SendValue (JStr []) \<rparr>"
proof -
  let ?req = "keyless_request ''GET'' ''/book'' JUndefined"
  have u: "\<not> unauthorized config_double ?req"
    by (simp add: unauthorized_def keyless_request_def)
  have f: "fetch (platform_double result) url init = result" for result url init
    by (simp add: platform_double_def)
  have t: "response_text failing_body_response = Rejected (JsError ''TypeError'' ''terminated'')"
    by (simp add: failing_body_response_def)
  have a: "fst (handler (platform_double (Rejected (JsError ''TypeError'' ''fetch failed'')))
                 config_double ?req) =
             Replied \<lparr> reply_status = 502, reply_headers = [],
               reply_payload = SendValue (JObj [(''error'', JStr ''Proxy error''),
                 (''detail'', JStr (String_err (JsError ''TypeError'' ''fetch failed'')))]) \<rparr>"
    using upstream_failure [OF u url_host_platform_double,
        of "Rejected (JsError ''TypeError'' ''fetch failed'')"
           "JsError ''TypeError'' ''fetch failed''"] f
    by blast
  have b: "fst (handler_buf (platform_double (Resolved failing_body_response))
                 config_double ?req) =
             Replied \<lparr> reply_status = 502, reply_headers = [],
               reply_payload = SendValue (JObj [(''error'', JStr ''Proxy error''),
                 (''detail'', JStr (String_err (JsError ''TypeError'' ''terminated'')))]) \<rparr>"
    using upstream_failure [OF u url_host_platform_double,
        of "Resolved failing_body_response" "JsError ''TypeError'' ''terminated''"
           failing_body_response] f t
    by blast
  have c: "fst (handler (platform_double (Resolved ok_response)) config_double ?req) =
             Replied \<lparr> reply_status = res_status ok_response,
                reply_headers = responseHeaders (res_headers ok_response) [],
                reply_payload = (case res_body ok_response of
                                   Some nodeStream \<Rightarrow> SendStream nodeStream
                                 | None \<Rightarrow> SendValue (JStr [])) \<rparr>"
    using upstream_failure [OF u url_host_platform_double,
        of "Resolved ok_response" _ ok_response] f
    by blast
  show ?thesis
    using a b c by (simp add: ok_response_def)
qed

text \<open>
  The claim as worded fails in \<^verbatim>\<open>src/server.js\<close> for a failure of reading the upstream
  response: the body stream that fails after its first chunk is relayed under the
  upstream's status 200.
\<close>

theorem upstream_failure_counterexample:
  "fst (handler (platform_double (Resolved failing_body_response)) config_double
          (keyless_request ''GET'' ''/book'' JUndefined)) =
     Replied \<lparr> reply_status = 200, reply_headers = [],
       reply_payload = SendStream (BodyStream [''first chunk'']
                                     (Fails (JsError ''TypeError'' ''terminated''))) \<rparr>"
  by code_simp

subsection \<open>Waiting for the upstream\<close>



subsection \<open>Request bodies\<close>

text \<open>
  What \<^verbatim>\<open>src/server.js\<close> does with a truthy body on a method other than GET and HEAD:
  a string goes out as it is, any other value as \<open>JSON.stringify\<close> renders it, and the
  content type is kept when truthy and \<open>application/json\<close> otherwise.
\<close>

lemma body_forwarded:
  assumes "has_request_body req"
  shows "requestBody pf req =
           (case req_body req of JStr s \<Rightarrow> Some s | v \<Rightarrow> JSON_stringify pf v)"
    and "obj_get (forwardHeaders h req) ''content-type'' =
           (if truthy (obj_get (host_headers h req) ''content-type'')
            then obj_get (host_headers h req) ''content-type''
            else JStr ''application/json'')"
  using assms by (simp_all add: requestBody_def forwardHeaders_def Let_def obj_get_obj_set)

text \<open>
  The example of the specification in \<^verbatim>\<open>src/server.js\<close>: a POST of \<open>{"a":1}\<close> without a
  content type, its body read as a raw string or parsed into an object.
\<close>

lemma body_example:
  "snd (handler (platform_double (Resolved ok_response)) empty_secret_config
          (keyless_request ''POST'' ''/order'' (JStr (''{'' @ quote @ ''a'' @ quote @ '':1}'')))) =
     [(''https://clob.polymarket.com/order'',
       \<lparr> init_method = ''POST'',
         init_headers = [(''host'', JStr ''clob.polymarket.com''),
                         (''content-type'', JStr ''application/json'')],
         init_body = Some (''{'' @ quote @ ''a'' @ quote @ '':1}''),
         init_redirect = ''follow'' \<rparr>)]"
  "snd (handler (platform_double (Resolved ok_response)) empty_secret_config
          (keyless_request ''POST'' ''/order'' (JObj [(''a'', JNum 1)]))) =
     [(''https://clob.polymarket.com/order'',
       \<lparr> init_method = ''POST'',
         init_headers = [(''host'', JStr ''clob.polymarket.com''),
                         (''content-type'', JStr ''application/json'')],
         init_body = Some (''{'' @ quote @ ''a'' @ quote @ '':1}''),
         init_redirect = ''follow'' \<rparr>)]"
  by code_simp+

text \<open>
  C5 at its failing inputs. In \<^verbatim>\<open>src/server.js\<close> a POST with content type
  \<open>application/json\<close> and the JSON body \<open>0\<close> is forwarded with no body at all, because
  the parsed value is falsy, although \<open>JSON.stringify\<close> renders it as \<open>0\<close>; and the JSON
  body \<open>"abc"\<close>, parsed into the string \<open>abc\<close>, is forwarded as the three bytes \<open>abc\<close>,
  which is no JSON text. In the buffered server a POST with content type \<open>text/plain\<close>
  and the raw body \<open>hello\<close> is forwarded as the JSON string literal, quotes included,
  not byte for byte.
\<close>

theorem body_round_trip_failing_input:
  "snd (handler (platform_double (Resolved ok_response)) empty_secret_config
          (typed_request ''application/json'' (JNum 0))) =
     [(''https://clob.polymarket.com/order'',
       \<lparr> init_method = ''POST'',
         init_headers = [(''content-type'', JStr ''application/json''),
                         (''host'', JStr ''clob.polymarket.com'')],
         init_body = None, init_redirect = ''follow'' \<rparr>)]
   \<and> JSON_stringify (platform_double (Resolved ok_response)) (JNum 0) = Some ''0''
   \<and> snd (handler (platform_double (Resolved ok_response)) empty_secret_config
          (typed_request ''application/json'' (JStr ''abc''))) =
     [(''https://clob.polymarket.com/order'',
       \<lparr> init_method = ''POST'',
         init_headers = [(''content-type'', JStr ''application/json''),
                         (''host'', JStr ''clob.polymarket.com'')],
         init_body = Some ''abc'', init_redirect = ''follow'' \<rparr>)]
   \<and> snd (handler_buf (platform_double (Resolved ok_response)) empty_secret_config
          (typed_request ''text/plain'' (JStr ''hello''))) =
     [(''https://clob.polymarket.com/order'',
       \<lparr> init_method = ''POST'',
         init_headers = [(''content-type'', JStr ''text/plain''),
                         (''host'', JStr ''clob.polymarket.com'')],
         init_body = Some ([CHR 0x22] @ ''hello'' @ [CHR 0x22]), init_redirect = ''follow'' \<rparr>)]"
  by code_simp

subsection \<open>Relaying the response body\<close>

text \<open>
  In \<^verbatim>\<open>src/server.js\<close> the reply is made as soon as \<open>fetch\<close> has resolved: it carries the
  upstream's body stream, whatever becomes of that stream later, and the empty string
  when the upstream sent no body.
\<close>

lemma relay_streams:
  assumes "\<not> unauthorized cfg req" and "url_host pf (CLOB_TARGET cfg) = Some h"
    and "fetch pf (targetUrl cfg req) (fetch_init_of pf h req) = Resolved response"
  shows "\<exists>r. fst (handler pf cfg req) = Replied r
           \<and> reply_status r = res_status response
           \<and> reply_headers r = responseHeaders (res_headers response) []
           \<and> reply_payload r = (case res_body response of
                                  Some nodeStream \<Rightarrow> SendStream nodeStream
                                | None \<Rightarrow> SendValue (JStr []))"
  using handler_resolved [OF assms] by (simp add: relay_def)

text \<open>
  C6 at its failing input. The buffered server awaits \<open>response.text()\<close>: for an upstream
  body that has delivered its first chunk and not yet ended, it has sent nothing to the
  caller, where \<^verbatim>\<open>src/server.js\<close> has already replied with the status and the stream.
\<close>

theorem streaming_failing_input:
  "handler_buf (platform_double (Resolved stalled_body_response)) config_double
     (keyless_request ''GET'' ''/book'' JUndefined) =
     (NoReply,
      [(''https://clob.polymarket.com/book'',
        \<lparr> init_method = ''GET'', init_headers = [(''host'', JStr ''clob.polymarket.com'')],
          init_body = None, init_redirect = ''follow'' \<rparr>)])
   \<and> fst (handler (platform_double (Resolved stalled_body_response)) config_double
          (keyless_request ''GET'' ''/book'' JUndefined)) =
     Replied \<lparr> reply_status = 200, reply_headers = [],
       reply_payload = SendStream (BodyStream [''first chunk''] Stalls) \<rparr>"
  by code_simp

end
